theory Spec2Isabelle
  imports Complex_Main
begin

section \<open>Particle ranges\<close>

text \<open>
  A particle is a pair of a state and a weight; a particle range is a finite sequence of
  particles. \<open>beluga::state\<close> and \<open>beluga::weight\<close> are the two accessors, and the
  \<open>states\<close> and \<open>weights\<close> views project a range element by element. The weight type is a
  template parameter of the source: the model only asks that it has a multiplication.
\<close>

type_synonym ('s, 'w) particle = "'s \<times> 'w"

type_synonym ('s, 'w) particle_range = "('s, 'w) particle list"

definition state :: "('s, 'w) particle \<Rightarrow> 's" where
  "state p = fst p"

definition weight :: "('s, 'w) particle \<Rightarrow> 'w" where
  "weight p = snd p"

section \<open>Execution policies\<close>

text \<open>
  \<open>std::execution::seq\<close> visits the element positions from left to right. Under
  \<open>std::execution::par\<close> the order in which the positions are visited is left to the
  implementation; the order it picks is carried by the policy value, so that a statement about
  the parallel policy is a statement about every visiting order. Each position is visited once:
  \<open>valid_schedule\<close> says that the order is an arrangement of the positions \<open>0..<n\<close>.
\<close>

datatype execution_policy = seq | par "nat list"

fun visit_order :: "execution_policy \<Rightarrow> nat \<Rightarrow> nat list" where
  "visit_order seq n = [0..<n]"
| "visit_order (par order) n = order"

definition valid_schedule :: "nat list \<Rightarrow> nat \<Rightarrow> bool" where
  "valid_schedule order n = (distinct order \<and> set order = {0..<n})"

fun valid_policy :: "execution_policy \<Rightarrow> nat \<Rightarrow> bool" where
  "valid_policy seq n = True"
| "valid_policy (par order) n = valid_schedule order n"

section \<open>The reweight action\<close>

text \<open>
  Model overload of \<open>reweight_base_fn::operator()\<close>: \<open>std::transform\<close> over the states and
  the weights, writing \<open>w * model(s)\<close> back to the weight at the same position.
  \<open>transform_step\<close> is the effect of the algorithm at one position.
\<close>

definition transform_step ::
  "('s \<Rightarrow> 'w) \<Rightarrow> nat \<Rightarrow> ('s, 'w::times) particle_range \<Rightarrow> ('s, 'w) particle_range" where
  "transform_step model i particles =
     (if i < length particles
      then particles[i := (state (particles ! i), weight (particles ! i) * model (state (particles ! i)))]
      else particles)"

definition reweight_base_model ::
  "execution_policy \<Rightarrow> ('s, 'w::times) particle_range \<Rightarrow> ('s \<Rightarrow> 'w) \<Rightarrow> ('s, 'w) particle_range" where
  "reweight_base_model policy particles model =
     fold (transform_step model) (visit_order policy (length particles)) particles"

text \<open>
  Likelihood-range overload: \<open>std::for_each\<close> over \<open>zip(range, likelihoods)\<close>, multiplying the
  weight of the particle by the likelihood zipped with it. The zipped view ends with the
  shorter of the two ranges.
\<close>

definition for_each_step ::
  "'w list \<Rightarrow> nat \<Rightarrow> ('s, 'w::times) particle_range \<Rightarrow> ('s, 'w) particle_range" where
  "for_each_step likelihoods i particles =
     (if i < length particles \<and> i < length likelihoods
      then particles[i := (state (particles ! i), weight (particles ! i) * likelihoods ! i)]
      else particles)"

definition reweight_base_likelihoods ::
  "execution_policy \<Rightarrow> ('s, 'w::times) particle_range \<Rightarrow> 'w list \<Rightarrow> ('s, 'w) particle_range" where
  "reweight_base_likelihoods policy particles likelihoods =
     fold (for_each_step likelihoods)
       (visit_order policy (min (length particles) (length likelihoods))) particles"

text \<open>\<open>reweight_fn\<close>: the overloads that default the execution policy to \<open>seq\<close>.\<close>

definition reweight_model ::
  "('s, 'w::times) particle_range \<Rightarrow> ('s \<Rightarrow> 'w) \<Rightarrow> ('s, 'w) particle_range" where
  "reweight_model particles model = reweight_base_model seq particles model"

definition reweight_likelihoods ::
  "('s, 'w::times) particle_range \<Rightarrow> 'w list \<Rightarrow> ('s, 'w) particle_range" where
  "reweight_likelihoods particles likelihoods = reweight_base_likelihoods seq particles likelihoods"

text \<open>
  The action takes the range by reference and returns the same reference. A store maps
  references to ranges; the call updates the store at the reference it was given and returns
  that reference.
\<close>

type_synonym ref = nat

type_synonym ('s, 'w) store = "ref \<Rightarrow> ('s, 'w) particle_range"

definition reweight_ref ::
  "ref \<Rightarrow> ('s \<Rightarrow> 'w) \<Rightarrow> ('s, 'w::times) store \<Rightarrow> ref \<times> ('s, 'w) store" where
  "reweight_ref r model \<sigma> = (r, \<sigma>(r := reweight_model (\<sigma> r) model))"

text \<open>
  The precomputed form as the specification words it: aligned lengths are a precondition, and
  a mismatch is reported as a precondition violation.
\<close>

datatype error = PreconditionViolation

definition reweight_likelihoods_spec ::
  "('s, 'w::times) particle_range \<Rightarrow> 'w list \<Rightarrow> error + ('s, 'w) particle_range" where
  "reweight_likelihoods_spec particles likelihoods =
     (if length likelihoods = length particles
      then Inr (map (\<lambda>(p, l). (state p, weight p * l)) (zip particles likelihoods))
      else Inl PreconditionViolation)"

section \<open>Weights as double-precision numbers\<close>

text \<open>
  Where a statement is about weights being finite, the weight type is instantiated with a
  model of the binary64 format that keeps what finiteness depends on: the two infinities, NaN,
  and overflow of a product. A finite value is the real number it denotes; the product of two
  finite values is exact below the overflow threshold (rounding inside the finite range is not
  modelled) and an infinity from the threshold on. Under round-to-nearest the threshold is the
  largest finite value \<open>2^1024 - 2^971\<close> plus half a unit in its last place, \<open>2^970\<close>.
\<close>

datatype float64 = Finite real | PosInf | NegInf | NaN

definition overflow_threshold :: real where
  "overflow_threshold = 2 ^ 1024 - 2 ^ 970"

definition round_overflow :: "real \<Rightarrow> float64" where
  "round_overflow x =
     (if overflow_threshold \<le> x then PosInf
      else if x \<le> - overflow_threshold then NegInf
      else Finite x)"

fun float64_mult :: "float64 \<Rightarrow> float64 \<Rightarrow> float64" where
  "float64_mult NaN b = NaN"
| "float64_mult a NaN = NaN"
| "float64_mult (Finite x) (Finite y) = round_overflow (x * y)"
| "float64_mult (Finite x) PosInf = (if x = 0 then NaN else if 0 < x then PosInf else NegInf)"
| "float64_mult (Finite x) NegInf = (if x = 0 then NaN else if 0 < x then NegInf else PosInf)"
| "float64_mult PosInf (Finite y) = (if y = 0 then NaN else if 0 < y then PosInf else NegInf)"
| "float64_mult NegInf (Finite y) = (if y = 0 then NaN else if 0 < y then NegInf else PosInf)"
| "float64_mult PosInf PosInf = PosInf"
| "float64_mult PosInf NegInf = NegInf"
| "float64_mult NegInf PosInf = NegInf"
| "float64_mult NegInf NegInf = PosInf"

instantiation float64 :: times
begin

definition times_float64 :: "float64 \<Rightarrow> float64 \<Rightarrow> float64" where
  "times_float64 a b = float64_mult a b"

instance ..

end

text \<open>\<open>std::isfinite(x)\<close> and the comparison \<open>0.0 <= x\<close>, which is false on NaN.\<close>

fun isfinite :: "float64 \<Rightarrow> bool" where
  "isfinite (Finite x) = True"
| "isfinite a = False"

fun nonnegative :: "float64 \<Rightarrow> bool" where
  "nonnegative (Finite x) = (0 \<le> x)"
| "nonnegative PosInf = True"
| "nonnegative a = False"

text \<open>The real number a finite value denotes.\<close>

fun float64_value :: "float64 \<Rightarrow> real" where
  "float64_value (Finite x) = x"
| "float64_value a = 0"

section \<open>Planar rotations and poses\<close>

text \<open>
  Modelled from the spec: the planar vector, rotation and pose types (\<open>Eigen::Vector2d\<close>,
  \<open>Sophus::SO2d\<close>, \<open>Sophus::SE2d\<close>) are not among the sources. A pose is a 2-D position and
  a heading; a heading is kept as the unit complex number \<open>(cos \<theta>, sin \<theta>)\<close>, and its angle
  is read back as a signed angle in \<open>(-\<pi>, \<pi>]\<close>. Numbers of type \<open>double\<close> are the real
  numbers here: rounding is not modelled.
\<close>

type_synonym vector2 = "real \<times> real"

definition vector_add :: "vector2 \<Rightarrow> vector2 \<Rightarrow> vector2" where
  "vector_add u v = (fst u + fst v, snd u + snd v)"

definition vector_sub :: "vector2 \<Rightarrow> vector2 \<Rightarrow> vector2" where
  "vector_sub u v = (fst u - fst v, snd u - snd v)"

definition vector_norm :: "vector2 \<Rightarrow> real" where
  "vector_norm v = sqrt (fst v * fst v + snd v * snd v)"

text \<open>\<open>std::atan2(y, x)\<close>: the angle of the point \<open>(x, y)\<close>, and 0 at the origin.\<close>

definition atan2 :: "real \<Rightarrow> real \<Rightarrow> real" where
  "atan2 y x =
     (if 0 < x then arctan (y / x)
      else if x < 0 \<and> 0 \<le> y then arctan (y / x) + pi
      else if x < 0 \<and> y < 0 then arctan (y / x) - pi
      else if 0 < y then pi / 2
      else if y < 0 then - (pi / 2)
      else 0)"

record SO2 =
  re :: real
  im :: real

definition valid_SO2 :: "SO2 \<Rightarrow> bool" where
  "valid_SO2 r = (re r * re r + im r * im r = 1)"

definition SO2_identity :: SO2 where
  "SO2_identity = \<lparr>re = 1, im = 0\<rparr>"

definition SO2_exp :: "real \<Rightarrow> SO2" where
  "SO2_exp theta = \<lparr>re = cos theta, im = sin theta\<rparr>"

definition SO2_log :: "SO2 \<Rightarrow> real" where
  "SO2_log r = atan2 (im r) (re r)"

definition SO2_inverse :: "SO2 \<Rightarrow> SO2" where
  "SO2_inverse r = \<lparr>re = re r, im = - im r\<rparr>"

text \<open>
  The product of two rotations is the complex product, rescaled by \<open>2 / (1 + squared_norm)\<close>
  whenever its squared norm is not 1. \<open>valid_SO2\<close> is the invariant of the type: the
  complex number has norm 1. On values that satisfy it the rescaling never happens.
\<close>

definition SO2_mult :: "SO2 \<Rightarrow> SO2 \<Rightarrow> SO2" where
  "SO2_mult a b =
     (let result_real = re a * re b - im a * im b;
          result_imag = re a * im b + im a * re b;
          squared_norm = result_real * result_real + result_imag * result_imag
      in if squared_norm \<noteq> 1
         then (let scale = 2 / (1 + squared_norm)
               in \<lparr>re = result_real * scale, im = result_imag * scale\<rparr>)
         else \<lparr>re = result_real, im = result_imag\<rparr>)"

definition SO2_act :: "SO2 \<Rightarrow> vector2 \<Rightarrow> vector2" where
  "SO2_act r v = (re r * fst v - im r * snd v, im r * fst v + re r * snd v)"

record SE2 =
  so2 :: SO2
  translation :: vector2

definition SE2_mult :: "SE2 \<Rightarrow> SE2 \<Rightarrow> SE2" where
  "SE2_mult a b =
     \<lparr>so2 = SO2_mult (so2 a) (so2 b),
      translation = vector_add (translation a) (SO2_act (so2 a) (translation b))\<rparr>"

section \<open>Normal draws\<close>

text \<open>
  Modelled from the spec: \<open>std::normal_distribution<double>\<close> is not among the sources. A draw
  with parameters (mean, standard deviation) takes a standard-normal sample and scales and
  shifts it. The uniform bit generator together with the thread-local distribution object is
  the sequence of standard-normal samples still to come; a draw takes the first and leaves
  the rest.
\<close>

record DistributionParam =
  mean :: real
  stddev :: real

type_synonym generator = "nat \<Rightarrow> real"

definition normal_draw :: "DistributionParam \<Rightarrow> generator \<Rightarrow> real \<times> generator" where
  "normal_draw p gen = (gen 0 * stddev p + mean p, \<lambda>n. gen (Suc n))"

section \<open>The omnidirectional drive model\<close>

record OmnidirectionalDriveModelParam =
  rotation_noise_from_rotation :: real
  rotation_noise_from_translation :: real
  translation_noise_from_translation :: real
  translation_noise_from_rotation :: real
  strafe_noise_from_translation :: real
  distance_threshold :: real

record OmnidirectionalDriveModel =
  params :: OmnidirectionalDriveModelParam
  last_pose :: "SE2 option"
  rotation_params :: DistributionParam
  strafe_params :: DistributionParam
  translation_params :: DistributionParam
  first_rotation :: SO2

text \<open>The constructor with the default member initializers.\<close>

definition make_model :: "OmnidirectionalDriveModelParam \<Rightarrow> OmnidirectionalDriveModel" where
  "make_model prm =
     \<lparr>params = prm,
      last_pose = None,
      rotation_params = \<lparr>mean = 0, stddev = 0\<rparr>,
      strafe_params = \<lparr>mean = 0, stddev = 0\<rparr>,
      translation_params = \<lparr>mean = 0, stddev = 0\<rparr>,
      first_rotation = SO2_identity\<rparr>"

text \<open>
  Modelled from the spec: the half turn of \<open>rotation_variance\<close> is
  \<open>Sophus::Constants<double>::pi()\<close>, which is not among the sources. It is the double
  nearest to \<open>\<pi>\<close>, the rational number \<open>884279719003555 / 2^48\<close>, and not \<open>\<pi>\<close> itself.
\<close>

definition pi_double :: real where
  "pi_double = 884279719003555 / 2 ^ 48"

definition rotation_variance :: "SO2 \<Rightarrow> real" where
  "rotation_variance rotation =
     (let flipped_rotation = SO2_mult rotation (SO2_exp pi_double);
          delta = min \<bar>SO2_log rotation\<bar> \<bar>SO2_log flipped_rotation\<bar>
      in delta * delta)"

definition update_motion :: "SE2 \<Rightarrow> OmnidirectionalDriveModel \<Rightarrow> OmnidirectionalDriveModel" where
  "update_motion pose m =
     (case last_pose m of
        None \<Rightarrow> m\<lparr>last_pose := Some pose\<rparr>
      | Some previous \<Rightarrow>
          (let trans = vector_sub (translation pose) (translation previous);
               distance = vector_norm trans;
               distance_variance = distance * distance;
               previous_orientation = so2 previous;
               current_orientation = so2 pose;
               rotation = SO2_mult current_orientation (SO2_inverse previous_orientation)
           in m\<lparr>first_rotation :=
                   (if distance_threshold (params m) < distance
                    then SO2_mult (SO2_exp (atan2 (snd trans) (fst trans)))
                           (SO2_inverse previous_orientation)
                    else SO2_exp 0),
                 rotation_params :=
                   \<lparr>mean = SO2_log rotation,
                    stddev = sqrt (rotation_noise_from_rotation (params m) * rotation_variance rotation +
                                   rotation_noise_from_translation (params m) * distance_variance)\<rparr>,
                 translation_params :=
                   \<lparr>mean = distance,
                    stddev = sqrt (translation_noise_from_translation (params m) * distance_variance +
                                   translation_noise_from_rotation (params m) * rotation_variance rotation)\<rparr>,
                 strafe_params :=
                   \<lparr>mean = 0,
                    stddev = sqrt (strafe_noise_from_translation (params m) * distance_variance +
                                   translation_noise_from_rotation (params m) * rotation_variance rotation)\<rparr>,
                 last_pose := Some pose\<rparr>))"

text \<open>
  \<open>apply_motion\<close> is a call on the model and the generator: it returns the new particle
  state together with the model and the generator as the call leaves them.
\<close>

definition apply_motion ::
  "SE2 \<Rightarrow> OmnidirectionalDriveModel \<Rightarrow> generator \<Rightarrow> SE2 \<times> OmnidirectionalDriveModel \<times> generator" where
  "apply_motion st m gen =
     (let (rotation_sample, gen1) = normal_draw (rotation_params m) gen;
          second_rotation = SO2_mult (SO2_exp rotation_sample) (SO2_inverse (first_rotation m));
          (translation_sample, gen2) = normal_draw (translation_params m) gen1;
          (strafe_sample, gen3) = normal_draw (strafe_params m) gen2;
          trans = (translation_sample, - 1 * strafe_sample)
      in (SE2_mult (SE2_mult st \<lparr>so2 = first_rotation m, translation = (0, 0)\<rparr>)
                   \<lparr>so2 = second_rotation, translation = trans\<rparr>,
          m, gen3))"

definition latest_motion_update :: "OmnidirectionalDriveModel \<Rightarrow> SE2 option" where
  "latest_motion_update m = last_pose m"

section \<open>Properties of the reweight action\<close>

text \<open>
  Visiting distinct positions in any order, each visit rewriting its own element, gives the
  element-wise image of the range on the visited positions.
\<close>

lemma fold_pointwise:
  assumes "distinct order"
  shows "fold (\<lambda>i r. if i < length r \<and> Q i then r[i := upd i (r ! i)] else r) order R =
         map (\<lambda>i. if i \<in> set order \<and> Q i then upd i (R ! i) else R ! i) [0..<length R]"
  using assms
proof (induction order arbitrary: R)
  case Nil
  show ?case by (simp add: map_nth)
next
  case (Cons a order)
  let ?step = "\<lambda>i r. if i < length r \<and> Q i then r[i := upd i (r ! i)] else r"
  let ?R = "?step a R"
  have len: "length ?R = length R" by simp
  have a: "a \<notin> set order" and d: "distinct order" using Cons.prems by auto
  have "fold ?step (a # order) R = fold ?step order ?R"
    by simp
  also have "\<dots> = map (\<lambda>i. if i \<in> set order \<and> Q i then upd i (?R ! i) else ?R ! i) [0..<length ?R]"
    by (rule Cons.IH [OF d])
  also have "\<dots> = map (\<lambda>i. if i \<in> set (a # order) \<and> Q i then upd i (R ! i) else R ! i) [0..<length R]"
    unfolding len using a by (intro map_cong refl) (auto simp: nth_list_update)
  finally show ?case .
qed

lemma transform_step_pointwise:
  "transform_step model =
   (\<lambda>i r. if i < length r \<and> True then r[i := (\<lambda>i p. (state p, weight p * model (state p))) i (r ! i)] else r)"
  by (auto simp: transform_step_def fun_eq_iff)

lemma for_each_step_pointwise:
  "for_each_step likelihoods =
   (\<lambda>i r. if i < length r \<and> i < length likelihoods
           then r[i := (\<lambda>i p. (state p, weight p * likelihoods ! i)) i (r ! i)] else r)"
  by (auto simp: for_each_step_def fun_eq_iff)

lemma valid_policy_visit_order:
  "valid_policy policy n \<Longrightarrow> distinct (visit_order policy n) \<and> set (visit_order policy n) = {0..<n}"
  by (cases policy) (auto simp: valid_schedule_def)

lemma reweight_base_model_eq:
  assumes "valid_policy policy (length R)"
  shows "reweight_base_model policy R model = map (\<lambda>p. (state p, weight p * model (state p))) R"
proof -
  have v: "distinct (visit_order policy (length R))" "set (visit_order policy (length R)) = {0..<length R}"
    using valid_policy_visit_order [OF assms] by auto
  have "reweight_base_model policy R model =
        map (\<lambda>i. if i \<in> set (visit_order policy (length R)) \<and> True
                  then (state (R ! i), weight (R ! i) * model (state (R ! i))) else R ! i) [0..<length R]"
    unfolding reweight_base_model_def transform_step_pointwise by (rule fold_pointwise [OF v(1)])
  also have "\<dots> = map (\<lambda>p. (state p, weight p * model (state p))) R"
    by (rule nth_equalityI) (simp_all add: v(2))
  finally show ?thesis .
qed

lemma reweight_base_likelihoods_eq:
  assumes "valid_policy policy (min (length R) (length L))"
  shows "reweight_base_likelihoods policy R L =
         map (\<lambda>i. if i < length L then (state (R ! i), weight (R ! i) * L ! i) else R ! i) [0..<length R]"
proof -
  let ?n = "min (length R) (length L)"
  have v: "distinct (visit_order policy ?n)" "set (visit_order policy ?n) = {0..<?n}"
    using valid_policy_visit_order [OF assms] by auto
  have "reweight_base_likelihoods policy R L =
        map (\<lambda>i. if i \<in> set (visit_order policy ?n) \<and> i < length L
                  then (state (R ! i), weight (R ! i) * L ! i) else R ! i) [0..<length R]"
    unfolding reweight_base_likelihoods_def for_each_step_pointwise by (rule fold_pointwise [OF v(1)])
  also have "\<dots> = map (\<lambda>i. if i < length L then (state (R ! i), weight (R ! i) * L ! i) else R ! i) [0..<length R]"
    by (rule nth_equalityI) (simp_all add: v(2))
  finally show ?thesis .
qed

lemma reweight_model_eq:
  "reweight_model R model = map (\<lambda>p. (state p, weight p * model (state p))) R"
  unfolding reweight_model_def by (rule reweight_base_model_eq) simp

lemma reweight_likelihoods_eq:
  "reweight_likelihoods R L =
   map (\<lambda>i. if i < length L then (state (R ! i), weight (R ! i) * L ! i) else R ! i) [0..<length R]"
  unfolding reweight_likelihoods_def by (rule reweight_base_likelihoods_eq) simp

text \<open>
  C1 (as amended). With a likelihood sequence of the same length, the precomputed form sets each
  weight to its product with the likelihood at the same position. With a sequence of another
  length no error is reported: the call returns the range, with the weights at the positions
  both sequences have multiplied and everything else as it was.
\<close>

theorem reweight_likelihoods_effect:
  "length (reweight_likelihoods R L) = length R \<and>
   (\<forall>i < length R.
      reweight_likelihoods R L ! i =
        (if i < length L then (state (R ! i), weight (R ! i) * L ! i) else R ! i)) \<and>
   (length L = length R \<longrightarrow>
      Inr (reweight_likelihoods R L) = reweight_likelihoods_spec R L)"
proof -
  have "length L = length R \<Longrightarrow>
        reweight_likelihoods R L = map (\<lambda>(p, l). (state p, weight p * l)) (zip R L)"
    by (rule nth_equalityI) (simp_all add: reweight_likelihoods_eq)
  then show ?thesis
    by (simp add: reweight_likelihoods_eq reweight_likelihoods_spec_def)
qed

theorem reweight_likelihoods_effect_witness:
  "reweight_likelihoods [(CHR ''a'', 2 :: int), (CHR ''b'', 3)] [5, 7] ! 1 = (CHR ''b'', 21) \<and>
   reweight_likelihoods [(CHR ''a'', 2 :: int), (CHR ''b'', 3)] [5] ! 1 = (CHR ''b'', 3) \<and>
   Inr (reweight_likelihoods [(CHR ''a'', 2 :: int), (CHR ''b'', 3)] [5, 7]) =
     reweight_likelihoods_spec [(CHR ''a'', 2 :: int), (CHR ''b'', 3)] [5, 7]"
  using reweight_likelihoods_effect [of "[(CHR ''a'', 2 :: int), (CHR ''b'', 3)]" "[5, 7]"]
        reweight_likelihoods_effect [of "[(CHR ''a'', 2 :: int), (CHR ''b'', 3)]" "[5]"]
  by (simp add: state_def weight_def)

theorem reweight_likelihoods_mismatch_counterexample:
  "reweight_likelihoods [(CHR ''a'', 2 :: int), (CHR ''b'', 3)] [5] = [(CHR ''a'', 10), (CHR ''b'', 3)] \<and>
   reweight_likelihoods_spec [(CHR ''a'', 2 :: int), (CHR ''b'', 3)] [5] = Inl PreconditionViolation \<and>
   Inr (reweight_likelihoods [(CHR ''a'', 2 :: int), (CHR ''b'', 3)] [5]) \<noteq>
     reweight_likelihoods_spec [(CHR ''a'', 2 :: int), (CHR ''b'', 3)] [5]"
  by (simp add: reweight_likelihoods_def reweight_base_likelihoods_def for_each_step_def
      reweight_likelihoods_spec_def state_def weight_def)

text \<open>
  C2. After \<open>reweight(R, m)\<close> the reference returned is the one passed in, the range it refers
  to has the length it had, every state is unchanged, and every weight is its previous value
  multiplied by the model's value at the state of the same particle; no other range of the
  store is touched.
\<close>

theorem reweight_model_effect:
  assumes "reweight_ref r model \<sigma> = (r', \<sigma>')"
  shows "r' = r \<and>
         length (\<sigma>' r) = length (\<sigma> r) \<and>
         (\<forall>i < length (\<sigma> r).
            state (\<sigma>' r ! i) = state (\<sigma> r ! i) \<and>
            weight (\<sigma>' r ! i) = weight (\<sigma> r ! i) * model (state (\<sigma> r ! i))) \<and>
         (\<forall>q. q \<noteq> r \<longrightarrow> \<sigma>' q = \<sigma> q)"
proof -
  have r: "r' = r" and s: "\<sigma>' = \<sigma>(r := reweight_model (\<sigma> r) model)"
    using assms by (auto simp: reweight_ref_def)
  have "\<sigma>' r = map (\<lambda>p. (state p, weight p * model (state p))) (\<sigma> r)"
    by (simp add: s reweight_model_eq)
  then show ?thesis
    using r s by (simp add: state_def weight_def)
qed

theorem reweight_model_effect_witness:
  "fst (reweight_ref 0 (\<lambda>s. int s + 1) (\<lambda>q. [(1 :: nat, 2 :: int), (4, 3)])) = 0 \<and>
   length (snd (reweight_ref 0 (\<lambda>s. int s + 1) (\<lambda>q. [(1 :: nat, 2 :: int), (4, 3)])) 0) = 2 \<and>
   snd (reweight_ref 0 (\<lambda>s. int s + 1) (\<lambda>q. [(1 :: nat, 2 :: int), (4, 3)])) 0 ! 1 = (4, 15) \<and>
   snd (reweight_ref 0 (\<lambda>s. int s + 1) (\<lambda>q. [(1 :: nat, 2 :: int), (4, 3)])) 1 = [(1, 2), (4, 3)]"
proof -
  let ?\<sigma> = "\<lambda>q :: nat. [(1 :: nat, 2 :: int), (4, 3)]"
  let ?res = "reweight_ref 0 (\<lambda>s. int s + 1) ?\<sigma>"
  have eq: "?res = (fst ?res, snd ?res)" by simp
  have one: "(1 :: nat) < length (?\<sigma> 0)" "(1 :: nat) \<noteq> 0" by simp_all
  from reweight_model_effect [OF eq] one
  have "fst ?res = 0"
    and "length (snd ?res 0) = 2"
    and "state (snd ?res 0 ! 1) = 4 \<and> weight (snd ?res 0 ! 1) = 15"
    and "snd ?res 1 = ?\<sigma> 1"
    by (simp_all add: state_def weight_def)
  then show ?thesis
    by (simp add: state_def weight_def prod_eq_iff)
qed

text \<open>
  C8. For a deterministic likelihood source (a model or a likelihood sequence), reweight under
  the parallel policy, whatever the order in which it visits the positions, leaves exactly the
  weights that reweight under the sequential policy leaves.
\<close>

theorem reweight_parallel_sequential:
  "(valid_schedule order (length R) \<longrightarrow>
      reweight_base_model (par order) R model = reweight_base_model seq R model) \<and>
   (valid_schedule order (min (length R) (length L)) \<longrightarrow>
      reweight_base_likelihoods (par order) R L = reweight_base_likelihoods seq R L)"
proof (intro conjI impI)
  assume "valid_schedule order (length R)"
  then have "valid_policy (par order) (length R)" by simp
  then show "reweight_base_model (par order) R model = reweight_base_model seq R model"
    by (simp only: reweight_base_model_eq valid_policy.simps)
next
  assume "valid_schedule order (min (length R) (length L))"
  then have "valid_policy (par order) (min (length R) (length L))" by simp
  then show "reweight_base_likelihoods (par order) R L = reweight_base_likelihoods seq R L"
    by (simp only: reweight_base_likelihoods_eq valid_policy.simps)
qed

theorem reweight_parallel_sequential_witness:
  "valid_schedule [2, 0, 1] (length [(CHR ''a'', 2 :: int), (CHR ''b'', 3), (CHR ''c'', 5)]) \<and>
   reweight_base_model (par [2, 0, 1]) [(CHR ''a'', 2 :: int), (CHR ''b'', 3), (CHR ''c'', 5)] (\<lambda>s. 7) =
     reweight_base_model seq [(CHR ''a'', 2), (CHR ''b'', 3), (CHR ''c'', 5)] (\<lambda>s. 7) \<and>
   valid_schedule [1, 0] (min (length [(CHR ''a'', 2 :: int), (CHR ''b'', 3), (CHR ''c'', 5)]) (length [11 :: int, 13])) \<and>
   reweight_base_likelihoods (par [1, 0]) [(CHR ''a'', 2 :: int), (CHR ''b'', 3), (CHR ''c'', 5)] [11, 13] =
     reweight_base_likelihoods seq [(CHR ''a'', 2), (CHR ''b'', 3), (CHR ''c'', 5)] [11, 13]"
proof -
  let ?R = "[(CHR ''a'', 2 :: int), (CHR ''b'', 3), (CHR ''c'', 5)]"
  have v1: "valid_schedule [2, 0, 1] (length ?R)"
    by (auto simp: valid_schedule_def)
  have v2: "valid_schedule [1, 0] (min (length ?R) (length [11 :: int, 13]))"
    by (auto simp: valid_schedule_def)
  from reweight_parallel_sequential [of "[2, 0, 1]" ?R "\<lambda>s. 7" "[]"] v1
  have a: "reweight_base_model (par [2, 0, 1]) ?R (\<lambda>s. 7) = reweight_base_model seq ?R (\<lambda>s. 7)"
    by blast
  from reweight_parallel_sequential [of "[1, 0]" ?R "\<lambda>s. 7" "[11, 13]"] v2
  have b: "reweight_base_likelihoods (par [1, 0]) ?R [11, 13] = reweight_base_likelihoods seq ?R [11, 13]"
    by blast
  show ?thesis using v1 v2 a b by blast
qed

text \<open>
  C10. With a likelihood sequence shorter than the range, the precomputed form returns the
  range with exactly the first \<open>len(L)\<close> weights multiplied by their likelihoods; the other
  weights and every state are as they were.
\<close>

theorem reweight_likelihoods_shorter:
  assumes "length L < length R"
  shows "length (reweight_likelihoods R L) = length R \<and>
         map state (reweight_likelihoods R L) = map state R \<and>
         (\<forall>i < length L. weight (reweight_likelihoods R L ! i) = weight (R ! i) * L ! i) \<and>
         (\<forall>i. length L \<le> i \<and> i < length R \<longrightarrow>
            weight (reweight_likelihoods R L ! i) = weight (R ! i))"
proof -
  have "map state (reweight_likelihoods R L) = map state R"
    by (rule nth_equalityI) (simp_all add: reweight_likelihoods_eq state_def)
  then show ?thesis
    using assms by (simp add: reweight_likelihoods_eq weight_def)
qed

theorem reweight_likelihoods_shorter_witness:
  "length [5 :: int] < length [(CHR ''a'', 2 :: int), (CHR ''b'', 3)] \<and>
   map state (reweight_likelihoods [(CHR ''a'', 2 :: int), (CHR ''b'', 3)] [5]) = [CHR ''a'', CHR ''b''] \<and>
   weight (reweight_likelihoods [(CHR ''a'', 2 :: int), (CHR ''b'', 3)] [5] ! 0) = 10 \<and>
   weight (reweight_likelihoods [(CHR ''a'', 2 :: int), (CHR ''b'', 3)] [5] ! 1) = 3"
proof -
  have h: "length [5 :: int] < length [(CHR ''a'', 2 :: int), (CHR ''b'', 3)]" by simp
  show ?thesis
    using h reweight_likelihoods_shorter [OF h] by (simp add: state_def weight_def)
qed

section \<open>Weights that stay non-negative\<close>

lemma overflow_threshold_positive: "0 < overflow_threshold"
  by (simp add: overflow_threshold_def)

lemma float64_mult_nonnegative:
  assumes "isfinite a" "nonnegative a" "isfinite b" "nonnegative b"
  shows "nonnegative (a * b) \<and>
         (isfinite (a * b) \<longleftrightarrow> float64_value a * float64_value b < overflow_threshold) \<and>
         (\<not> isfinite (a * b) \<longrightarrow> a * b = PosInf)"
proof -
  obtain x where a: "a = Finite x" using assms(1) by (cases a) auto
  obtain y where b: "b = Finite y" using assms(3) by (cases b) auto
  have "0 \<le> x * y" using assms(2,4) a b by simp
  then show ?thesis
    using overflow_threshold_positive
    by (simp add: a b times_float64_def round_overflow_def)
qed

text \<open>
  C9 (as amended). For a particle range whose weights are all finite and non-negative and a
  likelihood source (a model or a sequence) that supplies only finite non-negative values,
  every weight after reweight is the product of its previous value and its own likelihood,
  with no normalization; it is non-negative and not NaN; and it is finite exactly when that
  product is below the overflow threshold of the weight type, and positive infinity otherwise.
\<close>

theorem reweight_nonnegative:
  assumes "\<forall>p \<in> set R. isfinite (weight p) \<and> nonnegative (weight p)"
    and "\<forall>p \<in> set R. isfinite (model (state p)) \<and> nonnegative (model (state p))"
    and "\<forall>l \<in> set L. isfinite l \<and> nonnegative l"
  shows "(\<forall>i < length R.
            weight (reweight_model R model ! i) = weight (R ! i) * model (state (R ! i)) \<and>
            nonnegative (weight (reweight_model R model ! i)) \<and>
            (isfinite (weight (reweight_model R model ! i)) \<longleftrightarrow>
               float64_value (weight (R ! i)) * float64_value (model (state (R ! i)))
                 < overflow_threshold) \<and>
            (\<not> isfinite (weight (reweight_model R model ! i)) \<longrightarrow>
               weight (reweight_model R model ! i) = PosInf)) \<and>
         (\<forall>i < length R. i < length L \<longrightarrow>
            weight (reweight_likelihoods R L ! i) = weight (R ! i) * L ! i \<and>
            nonnegative (weight (reweight_likelihoods R L ! i)) \<and>
            (isfinite (weight (reweight_likelihoods R L ! i)) \<longleftrightarrow>
               float64_value (weight (R ! i)) * float64_value (L ! i) < overflow_threshold) \<and>
            (\<not> isfinite (weight (reweight_likelihoods R L ! i)) \<longrightarrow>
               weight (reweight_likelihoods R L ! i) = PosInf)) \<and>
         (\<forall>i < length R. length L \<le> i \<longrightarrow>
            weight (reweight_likelihoods R L ! i) = weight (R ! i))"
proof (intro conjI allI impI)
  fix i assume i: "i < length R"
  then have mem: "R ! i \<in> set R" by simp
  have w: "isfinite (weight (R ! i))" "nonnegative (weight (R ! i))"
    and l: "isfinite (model (state (R ! i)))" "nonnegative (model (state (R ! i)))"
    using assms(1,2) mem by blast+
  have eq: "weight (reweight_model R model ! i) = weight (R ! i) * model (state (R ! i))"
    using i by (simp add: reweight_model_eq weight_def)
  show "weight (reweight_model R model ! i) = weight (R ! i) * model (state (R ! i))"
    by (rule eq)
  show "nonnegative (weight (reweight_model R model ! i))"
    unfolding eq using float64_mult_nonnegative [OF w l] by blast
  show "isfinite (weight (reweight_model R model ! i)) \<longleftrightarrow>
        float64_value (weight (R ! i)) * float64_value (model (state (R ! i))) < overflow_threshold"
    unfolding eq using float64_mult_nonnegative [OF w l] by blast
  show "weight (reweight_model R model ! i) = PosInf"
    if "\<not> isfinite (weight (reweight_model R model ! i))"
    using that unfolding eq using float64_mult_nonnegative [OF w l] by blast
next
  fix i assume i: "i < length R" and j: "i < length L"
  have w: "isfinite (weight (R ! i))" "nonnegative (weight (R ! i))"
    using assms(1) i by simp_all
  have l: "isfinite (L ! i)" "nonnegative (L ! i)"
    using assms(3) j by simp_all
  have eq: "weight (reweight_likelihoods R L ! i) = weight (R ! i) * L ! i"
    using i j by (simp add: reweight_likelihoods_eq weight_def)
  show "weight (reweight_likelihoods R L ! i) = weight (R ! i) * L ! i"
    by (rule eq)
  show "nonnegative (weight (reweight_likelihoods R L ! i))"
    unfolding eq using float64_mult_nonnegative [OF w l] by blast
  show "isfinite (weight (reweight_likelihoods R L ! i)) \<longleftrightarrow>
        float64_value (weight (R ! i)) * float64_value (L ! i) < overflow_threshold"
    unfolding eq using float64_mult_nonnegative [OF w l] by blast
  show "weight (reweight_likelihoods R L ! i) = PosInf"
    if "\<not> isfinite (weight (reweight_likelihoods R L ! i))"
    using that unfolding eq using float64_mult_nonnegative [OF w l] by blast
next
  fix i assume "i < length R" "length L \<le> i"
  then show "weight (reweight_likelihoods R L ! i) = weight (R ! i)"
    by (simp add: reweight_likelihoods_eq)
qed

theorem reweight_nonnegative_witness:
  "weight (reweight_model [(CHR ''a'', Finite (1 / 2)), (CHR ''b'', Finite (1 / 2))]
     (\<lambda>s. if s = CHR ''a'' then Finite 2 else Finite 4) ! 1) = Finite 2 \<and>
   weight (reweight_likelihoods [(CHR ''a'', Finite (1 / 2)), (CHR ''b'', Finite (1 / 2))]
     [Finite 2, Finite 4] ! 0) = Finite 1 \<and>
   nonnegative (weight (reweight_likelihoods [(CHR ''a'', Finite (1 / 2)), (CHR ''b'', Finite (1 / 2))]
     [Finite 2, Finite 4] ! 1)) \<and>
   isfinite (weight (reweight_likelihoods [(CHR ''a'', Finite (1 / 2)), (CHR ''b'', Finite (1 / 2))]
     [Finite 2, Finite 4] ! 1))"
proof -
  let ?R = "[(CHR ''a'', Finite (1 / 2)), (CHR ''b'', Finite (1 / 2))]"
  let ?m = "\<lambda>s. if s = CHR ''a'' then Finite 2 else Finite 4"
  let ?L = "[Finite 2, Finite 4]"
  have h1: "\<forall>p \<in> set ?R. isfinite (weight p) \<and> nonnegative (weight p)"
    by (simp add: weight_def)
  have h2: "\<forall>p \<in> set ?R. isfinite (?m (state p)) \<and> nonnegative (?m (state p))"
    by (simp add: state_def)
  have h3: "\<forall>l \<in> set ?L. isfinite l \<and> nonnegative l"
    by simp
  have small: "(1 / 2 :: real) * 4 < overflow_threshold" "(1 / 2 :: real) * 2 < overflow_threshold"
    by (simp_all add: overflow_threshold_def)
  have idx: "(0 :: nat) < length ?R" "(1 :: nat) < length ?R" "(0 :: nat) < length ?L" "(1 :: nat) < length ?L"
    by simp_all
  from reweight_nonnegative [OF h1 h2 h3] idx
  have a: "weight (reweight_model ?R ?m ! 1) = weight (?R ! 1) * ?m (state (?R ! 1))"
    and b: "weight (reweight_likelihoods ?R ?L ! 0) = weight (?R ! 0) * ?L ! 0"
    and c: "nonnegative (weight (reweight_likelihoods ?R ?L ! 1))"
    and d: "isfinite (weight (reweight_likelihoods ?R ?L ! 1)) \<longleftrightarrow>
            float64_value (weight (?R ! 1)) * float64_value (?L ! 1) < overflow_threshold"
    by blast+
  have a': "weight (reweight_model ?R ?m ! 1) = Finite 2"
    unfolding a using small by (simp add: weight_def state_def times_float64_def round_overflow_def)
  have b': "weight (reweight_likelihoods ?R ?L ! 0) = Finite 1"
    unfolding b using small by (simp add: weight_def times_float64_def round_overflow_def)
  have d': "isfinite (weight (reweight_likelihoods ?R ?L ! 1))"
    unfolding d using small by (simp add: weight_def)
  show ?thesis using a' b' c d' by blast
qed

theorem reweight_finite_counterexample:
  "isfinite (Finite (2 ^ 600)) \<and> nonnegative (Finite (2 ^ 600)) \<and>
   weight (reweight_likelihoods [(CHR ''a'', Finite (2 ^ 600))] [Finite (2 ^ 600)] ! 0) = PosInf \<and>
   \<not> isfinite (weight (reweight_likelihoods [(CHR ''a'', Finite (2 ^ 600))] [Finite (2 ^ 600)] ! 0)) \<and>
   weight (reweight_model [(CHR ''a'', Finite (2 ^ 600))] (\<lambda>s. Finite (2 ^ 600)) ! 0) = PosInf \<and>
   \<not> isfinite (weight (reweight_model [(CHR ''a'', Finite (2 ^ 600))] (\<lambda>s. Finite (2 ^ 600)) ! 0))"
proof -
  have over: "overflow_threshold \<le> 2 ^ 600 * 2 ^ 600"
    by (simp add: overflow_threshold_def)
  have prod: "Finite (2 ^ 600) * Finite (2 ^ 600) = PosInf"
    using over by (simp add: times_float64_def round_overflow_def)
  have single_l: "weight (reweight_likelihoods [(s, w)] [l] ! 0) = w * l" for s :: char and w l :: float64
    by (simp add: reweight_likelihoods_def reweight_base_likelihoods_def for_each_step_def
        state_def weight_def)
  have single_m: "weight (reweight_model [(s, w)] m ! 0) = w * m s" for s :: char and w :: float64 and m
    by (simp add: reweight_model_def reweight_base_model_def transform_step_def
        state_def weight_def)
  have a: "weight (reweight_likelihoods [(CHR ''a'', Finite (2 ^ 600))] [Finite (2 ^ 600)] ! 0) = PosInf"
    unfolding single_l by (rule prod)
  have b: "weight (reweight_model [(CHR ''a'', Finite (2 ^ 600))] (\<lambda>s. Finite (2 ^ 600)) ! 0) = PosInf"
    unfolding single_m by (rule prod)
  show ?thesis
    unfolding a b by simp
qed

section \<open>Properties of rotations and poses\<close>

lemma SO2_exp_zero: "SO2_exp 0 = SO2_identity"
  by (simp add: SO2_exp_def SO2_identity_def)

lemma valid_SO2_exp: "valid_SO2 (SO2_exp theta)"
proof -
  have "cos theta * cos theta + sin theta * sin theta = (cos theta)\<^sup>2 + (sin theta)\<^sup>2"
    by (simp add: power2_eq_square)
  then show ?thesis
    by (simp add: valid_SO2_def SO2_exp_def)
qed

lemma valid_SO2_identity: "valid_SO2 SO2_identity"
  by (simp add: valid_SO2_def SO2_identity_def)

lemma valid_SO2_inverse: "valid_SO2 r \<Longrightarrow> valid_SO2 (SO2_inverse r)"
  by (simp add: valid_SO2_def SO2_inverse_def)

lemma SO2_inverse_identity: "SO2_inverse SO2_identity = SO2_identity"
  by (simp add: SO2_inverse_def SO2_identity_def)

text \<open>On unit complex numbers the product is never rescaled.\<close>

lemma SO2_mult_valid:
  assumes "valid_SO2 a" "valid_SO2 b"
  shows "SO2_mult a b = \<lparr>re = re a * re b - im a * im b, im = re a * im b + im a * re b\<rparr>"
proof -
  have "(re a * re b - im a * im b) * (re a * re b - im a * im b) +
        (re a * im b + im a * re b) * (re a * im b + im a * re b) =
        (re a * re a + im a * im a) * (re b * re b + im b * im b)"
    by (simp add: algebra_simps)
  also have "\<dots> = 1"
    using assms by (simp add: valid_SO2_def)
  finally show ?thesis
    by (simp add: SO2_mult_def Let_def)
qed

lemma SO2_mult_identity_right: "valid_SO2 a \<Longrightarrow> SO2_mult a SO2_identity = a"
  by (simp add: SO2_mult_valid valid_SO2_identity) (simp add: SO2_identity_def)

lemma SO2_mult_identity_left: "valid_SO2 a \<Longrightarrow> SO2_mult SO2_identity a = a"
  by (simp add: SO2_mult_valid valid_SO2_identity) (simp add: SO2_identity_def)


lemma SO2_log_identity: "SO2_log SO2_identity = 0"
  by (simp add: SO2_log_def SO2_identity_def atan2_def)

lemma rotation_variance_identity: "rotation_variance SO2_identity = 0"
  by (simp add: rotation_variance_def Let_def SO2_log_identity)

section \<open>Properties of the motion model\<close>

lemma SE2_mult_identity_right:
  "valid_SO2 (so2 st) \<Longrightarrow> SE2_mult st \<lparr>so2 = SO2_identity, translation = (0, 0)\<rparr> = st"
  by (simp add: SE2_mult_def SO2_mult_identity_right SO2_act_def vector_add_def)

lemma update_motion_first:
  "update_motion pose (make_model prm) =
   \<lparr>params = prm,
    last_pose = Some pose,
    rotation_params = \<lparr>mean = 0, stddev = 0\<rparr>,
    strafe_params = \<lparr>mean = 0, stddev = 0\<rparr>,
    translation_params = \<lparr>mean = 0, stddev = 0\<rparr>,
    first_rotation = SO2_identity\<rparr>"
  by (simp add: update_motion_def make_model_def)

text \<open>The three draws of \<open>apply_motion\<close>, in the order the source makes them.\<close>

lemma apply_motion_unfold:
  "apply_motion st m gen =
   (SE2_mult (SE2_mult st \<lparr>so2 = first_rotation m, translation = (0, 0)\<rparr>)
      \<lparr>so2 = SO2_mult (SO2_exp (gen 0 * stddev (rotation_params m) + mean (rotation_params m)))
               (SO2_inverse (first_rotation m)),
       translation = (gen 1 * stddev (translation_params m) + mean (translation_params m),
                      - 1 * (gen 2 * stddev (strafe_params m) + mean (strafe_params m)))\<rparr>,
    m, \<lambda>n. gen (Suc (Suc (Suc n))))"
  by (simp add: apply_motion_def normal_draw_def numeral_2_eq_2)

text \<open>
  The pose that \<open>apply_motion\<close> returns when no first rotation is stored and the sampled
  rotation is 0: the particle state composed with the sampled translation.
\<close>

lemma apply_motion_no_rotation:
  assumes "valid_SO2 (so2 st)"
    and "first_rotation m = SO2_identity"
    and "gen 0 * stddev (rotation_params m) + mean (rotation_params m) = 0"
    and "gen 1 * stddev (translation_params m) + mean (translation_params m) = tx"
    and "gen 2 * stddev (strafe_params m) + mean (strafe_params m) = sy"
  shows "fst (apply_motion st m gen) =
         \<lparr>so2 = so2 st,
          translation = vector_add (translation st) (SO2_act (so2 st) (tx, - sy))\<rparr>"
proof -
  have second: "SO2_mult (SO2_exp 0) (SO2_inverse SO2_identity) = SO2_identity"
    by (simp add: SO2_exp_zero SO2_inverse_identity SO2_mult_identity_right valid_SO2_identity)
  have "fst (apply_motion st m gen) =
        SE2_mult (SE2_mult st \<lparr>so2 = SO2_identity, translation = (0, 0)\<rparr>)
          \<lparr>so2 = SO2_identity, translation = (tx, - sy)\<rparr>"
    unfolding apply_motion_unfold fst_conv assms(2-5) second by simp
  also have "\<dots> = SE2_mult st \<lparr>so2 = SO2_identity, translation = (tx, - sy)\<rparr>"
    by (simp only: SE2_mult_identity_right [OF assms(1)])
  also have "\<dots> = \<lparr>so2 = so2 st,
                    translation = vector_add (translation st) (SO2_act (so2 st) (tx, - sy))\<rparr>"
    by (simp add: SE2_mult_def SO2_mult_identity_right [OF assms(1)])
  finally show ?thesis .
qed

text \<open>The model after the poses \<open>(0, 0, heading 0)\<close> and \<open>(1, 0, heading 0)\<close>.\<close>

lemma vector_norm_unit_x: "vector_norm (vector_sub (1, 0) (0, 0)) = 1"
  by (simp add: vector_norm_def vector_sub_def)

lemma two_updates:
  "update_motion \<lparr>so2 = SO2_exp 0, translation = (1, 0)\<rparr>
     (update_motion \<lparr>so2 = SO2_exp 0, translation = (0, 0)\<rparr> (make_model prm)) =
   \<lparr>params = prm,
    last_pose = Some \<lparr>so2 = SO2_exp 0, translation = (1, 0)\<rparr>,
    rotation_params = \<lparr>mean = 0, stddev = sqrt (rotation_noise_from_translation prm)\<rparr>,
    strafe_params = \<lparr>mean = 0, stddev = sqrt (strafe_noise_from_translation prm)\<rparr>,
    translation_params = \<lparr>mean = 1, stddev = sqrt (translation_noise_from_translation prm)\<rparr>,
    first_rotation = SO2_identity\<rparr>"
proof -
  have rot: "SO2_mult SO2_identity (SO2_inverse SO2_identity) = SO2_identity"
    by (simp add: SO2_inverse_identity SO2_mult_identity_right valid_SO2_identity)
  have bearing: "atan2 (snd (vector_sub (1, 0) (0, 0))) (fst (vector_sub (1, 0) (0, 0))) = 0"
    by (simp add: atan2_def vector_sub_def)
  show ?thesis
    unfolding update_motion_first
    by (simp add: update_motion_def Let_def vector_norm_unit_x bearing
        SO2_exp_zero rot SO2_log_identity rotation_variance_identity)
qed

text \<open>
  C3 (as amended). After \<open>update_motion\<close> with the pose \<open>(0, 0, heading 0)\<close> and then with the
  pose \<open>(1, 0, heading 0)\<close> the stored parameters are: rotation mean 0 and standard deviation
  \<open>sqrt \<alpha>2\<close>, forward translation mean 1 and standard deviation \<open>sqrt \<alpha>3\<close>, strafe mean 0 and
  standard deviation \<open>sqrt \<alpha>5\<close>. With a generator whose draws are 0, so that each normal draw
  returns the mean of its distribution, \<open>apply_motion\<close> keeps the heading of the state and moves
  its position by \<open>(1, 0)\<close> taken in the frame of the state, that is, by one unit along the
  heading of the state; for a state of heading 0 this is the translation by exactly \<open>(1, 0)\<close>.
\<close>

theorem translate_example:
  "rotation_params
     (update_motion \<lparr>so2 = SO2_exp 0, translation = (1, 0)\<rparr>
       (update_motion \<lparr>so2 = SO2_exp 0, translation = (0, 0)\<rparr> (make_model prm))) =
     \<lparr>mean = 0, stddev = sqrt (rotation_noise_from_translation prm)\<rparr> \<and>
   translation_params
     (update_motion \<lparr>so2 = SO2_exp 0, translation = (1, 0)\<rparr>
       (update_motion \<lparr>so2 = SO2_exp 0, translation = (0, 0)\<rparr> (make_model prm))) =
     \<lparr>mean = 1, stddev = sqrt (translation_noise_from_translation prm)\<rparr> \<and>
   strafe_params
     (update_motion \<lparr>so2 = SO2_exp 0, translation = (1, 0)\<rparr>
       (update_motion \<lparr>so2 = SO2_exp 0, translation = (0, 0)\<rparr> (make_model prm))) =
     \<lparr>mean = 0, stddev = sqrt (strafe_noise_from_translation prm)\<rparr> \<and>
   (valid_SO2 (so2 st) \<and> gen 0 = 0 \<and> gen 1 = 0 \<and> gen 2 = 0 \<longrightarrow>
      fst (apply_motion st
             (update_motion \<lparr>so2 = SO2_exp 0, translation = (1, 0)\<rparr>
               (update_motion \<lparr>so2 = SO2_exp 0, translation = (0, 0)\<rparr> (make_model prm)))
             gen) =
        \<lparr>so2 = so2 st,
         translation = vector_add (translation st) (SO2_act (so2 st) (1, 0))\<rparr>) \<and>
   (so2 st = SO2_exp 0 \<and> gen 0 = 0 \<and> gen 1 = 0 \<and> gen 2 = 0 \<longrightarrow>
      fst (apply_motion st
             (update_motion \<lparr>so2 = SO2_exp 0, translation = (1, 0)\<rparr>
               (update_motion \<lparr>so2 = SO2_exp 0, translation = (0, 0)\<rparr> (make_model prm)))
             gen) =
        \<lparr>so2 = so2 st, translation = vector_add (translation st) (1, 0)\<rparr>)"
proof -
  let ?m = "update_motion \<lparr>so2 = SO2_exp 0, translation = (1, 0)\<rparr>
              (update_motion \<lparr>so2 = SO2_exp 0, translation = (0, 0)\<rparr> (make_model prm))"
  have moved: "fst (apply_motion st ?m gen) =
               \<lparr>so2 = so2 st,
                translation = vector_add (translation st) (SO2_act (so2 st) (1, 0))\<rparr>"
    if v: "valid_SO2 (so2 st)" and g: "gen 0 = 0" "gen 1 = 0" "gen 2 = 0"
  proof -
    have "fst (apply_motion st ?m gen) =
          \<lparr>so2 = so2 st,
           translation = vector_add (translation st) (SO2_act (so2 st) (1, - 0))\<rparr>"
      by (rule apply_motion_no_rotation [OF v]) (insert g, simp_all add: two_updates)
    then show ?thesis by simp
  qed
  have ahead: "fst (apply_motion st ?m gen) =
               \<lparr>so2 = so2 st, translation = vector_add (translation st) (1, 0)\<rparr>"
    if h: "so2 st = SO2_exp 0" and g: "gen 0 = 0" "gen 1 = 0" "gen 2 = 0"
  proof -
    have "valid_SO2 (so2 st)" by (simp add: h valid_SO2_exp)
    from moved [OF this g] show ?thesis
      by (simp add: h) (simp add: SO2_act_def SO2_exp_def)
  qed
  show ?thesis
    using moved ahead by (simp add: two_updates)
qed

theorem translate_example_witness:
  "fst (apply_motion \<lparr>so2 = \<lparr>re = 0, im = 1\<rparr>, translation = (2, 3)\<rparr>
     (update_motion \<lparr>so2 = SO2_exp 0, translation = (1, 0)\<rparr>
       (update_motion \<lparr>so2 = SO2_exp 0, translation = (0, 0)\<rparr>
         (make_model \<lparr>rotation_noise_from_rotation = 1, rotation_noise_from_translation = 1,
            translation_noise_from_translation = 1, translation_noise_from_rotation = 1,
            strafe_noise_from_translation = 1, distance_threshold = 1 / 100\<rparr>)))
     (\<lambda>n. 0)) =
   \<lparr>so2 = \<lparr>re = 0, im = 1\<rparr>, translation = (2, 4)\<rparr> \<and>
   fst (apply_motion \<lparr>so2 = SO2_exp 0, translation = (2, 0)\<rparr>
     (update_motion \<lparr>so2 = SO2_exp 0, translation = (1, 0)\<rparr>
       (update_motion \<lparr>so2 = SO2_exp 0, translation = (0, 0)\<rparr>
         (make_model \<lparr>rotation_noise_from_rotation = 1, rotation_noise_from_translation = 1,
            translation_noise_from_translation = 1, translation_noise_from_rotation = 1,
            strafe_noise_from_translation = 1, distance_threshold = 1 / 100\<rparr>)))
     (\<lambda>n. 0)) =
   \<lparr>so2 = SO2_exp 0, translation = (3, 0)\<rparr>"
proof -
  let ?prm = "\<lparr>rotation_noise_from_rotation = 1, rotation_noise_from_translation = 1,
            translation_noise_from_translation = 1, translation_noise_from_rotation = 1,
            strafe_noise_from_translation = 1, distance_threshold = 1 / 100\<rparr>"
  have v: "valid_SO2 (so2 \<lparr>so2 = \<lparr>re = 0, im = 1\<rparr>, translation = (2, 3)\<rparr>)"
    by (simp add: valid_SO2_def)
  show ?thesis
    using v
      translate_example [of ?prm "\<lparr>so2 = \<lparr>re = 0, im = 1\<rparr>, translation = (2, 3)\<rparr>" "\<lambda>n. 0"]
      translate_example [of ?prm "\<lparr>so2 = SO2_exp 0, translation = (2, 0)\<rparr>" "\<lambda>n. 0"]
    by (simp add: SO2_act_def vector_add_def)
qed

theorem translate_example_counterexample:
  "SO2_exp (pi / 2) = \<lparr>re = 0, im = 1\<rparr> \<and>
   valid_SO2 \<lparr>re = 0, im = 1\<rparr> \<and>
   translation
     (fst (apply_motion \<lparr>so2 = \<lparr>re = 0, im = 1\<rparr>, translation = (0, 0)\<rparr>
        (update_motion \<lparr>so2 = SO2_exp 0, translation = (1, 0)\<rparr>
          (update_motion \<lparr>so2 = SO2_exp 0, translation = (0, 0)\<rparr>
            (make_model \<lparr>rotation_noise_from_rotation = 1, rotation_noise_from_translation = 1,
               translation_noise_from_translation = 1, translation_noise_from_rotation = 1,
               strafe_noise_from_translation = 1, distance_threshold = 1 / 100\<rparr>)))
        (\<lambda>n. 0))) = (0, 1) \<and>
   vector_add (0, 0) (1, 0) = (1, 0) \<and>
   translation
     (fst (apply_motion \<lparr>so2 = \<lparr>re = 0, im = 1\<rparr>, translation = (0, 0)\<rparr>
        (update_motion \<lparr>so2 = SO2_exp 0, translation = (1, 0)\<rparr>
          (update_motion \<lparr>so2 = SO2_exp 0, translation = (0, 0)\<rparr>
            (make_model \<lparr>rotation_noise_from_rotation = 1, rotation_noise_from_translation = 1,
               translation_noise_from_translation = 1, translation_noise_from_rotation = 1,
               strafe_noise_from_translation = 1, distance_threshold = 1 / 100\<rparr>)))
        (\<lambda>n. 0))) \<noteq> vector_add (0, 0) (1, 0)"
proof -
  have v: "valid_SO2 (so2 \<lparr>so2 = \<lparr>re = 0, im = 1\<rparr>, translation = (0, 0)\<rparr>)"
    by (simp add: valid_SO2_def)
  have q: "SO2_exp (pi / 2) = \<lparr>re = 0, im = 1\<rparr>"
    by (simp add: SO2_exp_def)
  show ?thesis
    using v q by (simp add: apply_motion_no_rotation [OF v, where tx = 1 and sy = 0] two_updates
        SO2_act_def vector_add_def valid_SO2_def)
qed

text \<open>
  C4 (as amended). When a previous pose is stored, \<open>update_motion\<close> stores as first rotation
  the bearing of the translation relative to the previous heading whenever the distance is
  greater than the distance threshold, and the identity rotation whenever the distance is at
  most the distance threshold.
\<close>

theorem first_rotation_threshold:
  assumes "last_pose m = Some previous"
  shows "(distance_threshold (params m) <
            vector_norm (vector_sub (translation pose) (translation previous)) \<longrightarrow>
          first_rotation (update_motion pose m) =
            SO2_mult
              (SO2_exp (atan2 (snd (vector_sub (translation pose) (translation previous)))
                              (fst (vector_sub (translation pose) (translation previous)))))
              (SO2_inverse (so2 previous))) \<and>
         (vector_norm (vector_sub (translation pose) (translation previous)) \<le>
            distance_threshold (params m) \<longrightarrow>
          first_rotation (update_motion pose m) = SO2_identity)"
proof -
  let ?trans = "vector_sub (translation pose) (translation previous)"
  have stored: "first_rotation (update_motion pose m) =
                (if distance_threshold (params m) < vector_norm ?trans
                 then SO2_mult (SO2_exp (atan2 (snd ?trans) (fst ?trans)))
                        (SO2_inverse (so2 previous))
                 else SO2_exp 0)"
    using assms by (simp add: update_motion_def Let_def)
  show ?thesis
  proof (intro conjI impI)
    assume "distance_threshold (params m) < vector_norm ?trans"
    then show "first_rotation (update_motion pose m) =
               SO2_mult (SO2_exp (atan2 (snd ?trans) (fst ?trans))) (SO2_inverse (so2 previous))"
      by (simp add: stored)
  next
    assume "vector_norm ?trans \<le> distance_threshold (params m)"
    then have "\<not> distance_threshold (params m) < vector_norm ?trans"
      by simp
    then show "first_rotation (update_motion pose m) = SO2_identity"
      by (simp add: stored SO2_exp_zero)
  qed
qed

theorem first_rotation_threshold_witness:
  "first_rotation
     (update_motion \<lparr>so2 = SO2_exp 0, translation = (0, 2)\<rparr>
       (update_motion \<lparr>so2 = SO2_exp 0, translation = (0, 0)\<rparr>
         (make_model \<lparr>rotation_noise_from_rotation = 0, rotation_noise_from_translation = 0,
            translation_noise_from_translation = 0, translation_noise_from_rotation = 0,
            strafe_noise_from_translation = 0, distance_threshold = 1\<rparr>))) =
     \<lparr>re = 0, im = 1\<rparr> \<and>
   first_rotation
     (update_motion \<lparr>so2 = SO2_exp 0, translation = (0, 1)\<rparr>
       (update_motion \<lparr>so2 = SO2_exp 0, translation = (0, 0)\<rparr>
         (make_model \<lparr>rotation_noise_from_rotation = 0, rotation_noise_from_translation = 0,
            translation_noise_from_translation = 0, translation_noise_from_rotation = 0,
            strafe_noise_from_translation = 0, distance_threshold = 1\<rparr>))) =
     SO2_identity"
proof -
  let ?prm = "\<lparr>rotation_noise_from_rotation = 0, rotation_noise_from_translation = 0,
            translation_noise_from_translation = 0, translation_noise_from_rotation = 0,
            strafe_noise_from_translation = 0, distance_threshold = 1\<rparr>"
  let ?p0 = "\<lparr>so2 = SO2_exp 0, translation = (0, 0)\<rparr>"
  let ?m = "update_motion ?p0 (make_model ?prm)"
  have l: "last_pose ?m = Some ?p0"
    by (simp add: update_motion_first)
  have t: "distance_threshold (params ?m) = 1"
    by (simp add: update_motion_first)
  have far: "vector_norm (vector_sub (0, 2) (0, 0)) = 2"
    using real_sqrt_abs [of 2] by (simp add: vector_norm_def vector_sub_def power2_eq_square)
  have near: "vector_norm (vector_sub (0, 1) (0, 0)) = 1"
    by (simp add: vector_norm_def vector_sub_def)
  have quarter: "SO2_mult (SO2_exp (atan2 2 0)) (SO2_inverse SO2_identity) = \<lparr>re = 0, im = 1\<rparr>"
    by (simp add: SO2_inverse_identity SO2_mult_identity_right valid_SO2_exp atan2_def)
      (simp add: SO2_exp_def)
  let ?p2 = "\<lparr>so2 = SO2_exp 0, translation = (0, 2)\<rparr>"
  let ?p1 = "\<lparr>so2 = SO2_exp 0, translation = (0, 1)\<rparr>"
  have d2: "distance_threshold (params ?m) <
            vector_norm (vector_sub (translation ?p2) (translation ?p0))"
    by (simp add: t far)
  have d1: "vector_norm (vector_sub (translation ?p1) (translation ?p0)) \<le>
            distance_threshold (params ?m)"
    by (simp add: t near)
  from first_rotation_threshold [OF l, of ?p2] d2
  have "first_rotation (update_motion ?p2 ?m) =
        SO2_mult
          (SO2_exp (atan2 (snd (vector_sub (translation ?p2) (translation ?p0)))
                          (fst (vector_sub (translation ?p2) (translation ?p0)))))
          (SO2_inverse (so2 ?p0))"
    by blast
  also have "\<dots> = \<lparr>re = 0, im = 1\<rparr>"
    using quarter by (simp add: vector_sub_def SO2_exp_zero)
  finally have r2: "first_rotation (update_motion ?p2 ?m) = \<lparr>re = 0, im = 1\<rparr>" .
  from first_rotation_threshold [OF l, of ?p1] d1
  have r1: "first_rotation (update_motion ?p1 ?m) = SO2_identity"
    by blast
  show ?thesis
    using r2 r1 by (rule conjI)
qed

theorem first_rotation_threshold_counterexample:
  "distance_threshold
     \<lparr>rotation_noise_from_rotation = 0, rotation_noise_from_translation = 0,
      translation_noise_from_translation = 0, translation_noise_from_rotation = 0,
      strafe_noise_from_translation = 0, distance_threshold = 1\<rparr> \<le>
     vector_norm (vector_sub (0, 1) (0, 0)) \<and>
   SO2_mult (SO2_exp (atan2 (snd (vector_sub (0, 1) (0, 0))) (fst (vector_sub (0, 1) (0, 0)))))
     (SO2_inverse (SO2_exp 0)) = \<lparr>re = 0, im = 1\<rparr> \<and>
   first_rotation
     (update_motion \<lparr>so2 = SO2_exp 0, translation = (0, 1)\<rparr>
       (update_motion \<lparr>so2 = SO2_exp 0, translation = (0, 0)\<rparr>
         (make_model \<lparr>rotation_noise_from_rotation = 0, rotation_noise_from_translation = 0,
            translation_noise_from_translation = 0, translation_noise_from_rotation = 0,
            strafe_noise_from_translation = 0, distance_threshold = 1\<rparr>))) =
     \<lparr>re = 1, im = 0\<rparr> \<and>
   \<lparr>re = 1, im = 0\<rparr> \<noteq> \<lparr>re = 0, im = 1 :: real\<rparr>"
proof -
  have near: "vector_norm (vector_sub (0, 1) (0, 0)) = 1"
    by (simp add: vector_norm_def vector_sub_def)
  have quarter: "SO2_mult (SO2_exp (atan2 1 0)) (SO2_inverse SO2_identity) = \<lparr>re = 0, im = 1\<rparr>"
    by (simp add: SO2_inverse_identity SO2_mult_identity_right valid_SO2_exp atan2_def)
      (simp add: SO2_exp_def)
  have stored: "first_rotation
     (update_motion \<lparr>so2 = SO2_exp 0, translation = (0, 1)\<rparr>
       (update_motion \<lparr>so2 = SO2_exp 0, translation = (0, 0)\<rparr>
         (make_model \<lparr>rotation_noise_from_rotation = 0, rotation_noise_from_translation = 0,
            translation_noise_from_translation = 0, translation_noise_from_rotation = 0,
            strafe_noise_from_translation = 0, distance_threshold = 1\<rparr>))) = SO2_identity"
    unfolding update_motion_first
    by (simp add: update_motion_def Let_def near SO2_exp_zero)
  have bearing: "SO2_mult
      (SO2_exp (atan2 (snd (vector_sub (0, 1) (0, 0))) (fst (vector_sub (0, 1) (0, 0)))))
      (SO2_inverse (SO2_exp 0)) = \<lparr>re = 0, im = 1\<rparr>"
    using quarter by (simp add: vector_sub_def SO2_exp_zero)
  show ?thesis
    unfolding stored bearing near by (simp add: SO2_identity_def)
qed

text \<open>
  C6. After one \<open>update_motion\<close> on a freshly constructed model the noise parameters are
  still the defaults (mean 0 and standard deviation 0 for the three distributions, the identity
  as first rotation), and \<open>apply_motion\<close> returns the state it is given, for every state and
  every generator.
\<close>

theorem single_update_identity:
  "rotation_params (update_motion pose (make_model prm)) = \<lparr>mean = 0, stddev = 0\<rparr> \<and>
   translation_params (update_motion pose (make_model prm)) = \<lparr>mean = 0, stddev = 0\<rparr> \<and>
   strafe_params (update_motion pose (make_model prm)) = \<lparr>mean = 0, stddev = 0\<rparr> \<and>
   first_rotation (update_motion pose (make_model prm)) = SO2_identity \<and>
   latest_motion_update (update_motion pose (make_model prm)) = Some pose \<and>
   (valid_SO2 (so2 st) \<longrightarrow>
      fst (apply_motion st (update_motion pose (make_model prm)) gen) = st)"
proof -
  let ?m = "update_motion pose (make_model prm)"
  have "fst (apply_motion st ?m gen) = st" if v: "valid_SO2 (so2 st)"
  proof -
    have "fst (apply_motion st ?m gen) =
          \<lparr>so2 = so2 st,
           translation = vector_add (translation st) (SO2_act (so2 st) (0, - 0))\<rparr>"
      by (rule apply_motion_no_rotation [OF v])
        (simp_all add: update_motion_first)
    then show ?thesis
      by (simp add: SO2_act_def vector_add_def)
  qed
  then show ?thesis
    by (simp add: update_motion_first latest_motion_update_def)
qed

theorem single_update_identity_witness:
  "valid_SO2 (so2 \<lparr>so2 = \<lparr>re = 0, im = 1\<rparr>, translation = (2, 3)\<rparr>) \<and>
   fst (apply_motion \<lparr>so2 = \<lparr>re = 0, im = 1\<rparr>, translation = (2, 3)\<rparr>
     (update_motion \<lparr>so2 = SO2_exp 0, translation = (5, 7)\<rparr>
       (make_model \<lparr>rotation_noise_from_rotation = 1, rotation_noise_from_translation = 1,
          translation_noise_from_translation = 1, translation_noise_from_rotation = 1,
          strafe_noise_from_translation = 1, distance_threshold = 1 / 100\<rparr>))
     (\<lambda>n. real n + 1)) =
   \<lparr>so2 = \<lparr>re = 0, im = 1\<rparr>, translation = (2, 3)\<rparr>"
proof -
  have v: "valid_SO2 (so2 \<lparr>so2 = \<lparr>re = 0, im = 1\<rparr>, translation = (2, 3)\<rparr>)"
    by (simp add: valid_SO2_def)
  show ?thesis
    using v single_update_identity [of "\<lparr>so2 = SO2_exp 0, translation = (5, 7)\<rparr>"
        "\<lparr>rotation_noise_from_rotation = 1, rotation_noise_from_translation = 1,
          translation_noise_from_translation = 1, translation_noise_from_rotation = 1,
          strafe_noise_from_translation = 1, distance_threshold = 1 / 100\<rparr>"
        "\<lparr>so2 = \<lparr>re = 0, im = 1\<rparr>, translation = (2, 3)\<rparr>" "\<lambda>n. real n + 1"]
    by blast
qed

text \<open>
  C7. \<open>apply_motion\<close> leaves the model as it found it (the parameters, the last pose, the first
  rotation and the three distribution parameter pairs), and the state it returns is determined
  by the input state, the three draws of the generator, the stored first rotation and the
  stored distribution parameters.
\<close>

theorem apply_motion_pure:
  "fst (snd (apply_motion st m gen)) = m \<and>
   (first_rotation m = first_rotation m' \<and>
    rotation_params m = rotation_params m' \<and>
    translation_params m = translation_params m' \<and>
    strafe_params m = strafe_params m' \<and>
    gen 0 = gen' 0 \<and> gen 1 = gen' 1 \<and> gen 2 = gen' 2 \<longrightarrow>
    fst (apply_motion st m gen) = fst (apply_motion st m' gen'))"
proof (intro conjI impI)
  show "fst (snd (apply_motion st m gen)) = m"
    by (simp add: apply_motion_unfold)
next
  assume same: "first_rotation m = first_rotation m' \<and>
    rotation_params m = rotation_params m' \<and>
    translation_params m = translation_params m' \<and>
    strafe_params m = strafe_params m' \<and>
    gen 0 = gen' 0 \<and> gen 1 = gen' 1 \<and> gen 2 = gen' 2"
  have "fst (apply_motion st m gen) =
        SE2_mult (SE2_mult st \<lparr>so2 = first_rotation m', translation = (0, 0)\<rparr>)
          \<lparr>so2 = SO2_mult
                   (SO2_exp (gen' 0 * stddev (rotation_params m') + mean (rotation_params m')))
                   (SO2_inverse (first_rotation m')),
           translation =
             (gen' 1 * stddev (translation_params m') + mean (translation_params m'),
              - 1 * (gen' 2 * stddev (strafe_params m') + mean (strafe_params m')))\<rparr>"
    unfolding apply_motion_unfold fst_conv using same by simp
  also have "\<dots> = fst (apply_motion st m' gen')"
    unfolding apply_motion_unfold fst_conv ..
  finally show "fst (apply_motion st m gen) = fst (apply_motion st m' gen')" .
qed

theorem apply_motion_pure_witness:
  "fst (apply_motion \<lparr>so2 = SO2_exp 0, translation = (2, 3)\<rparr>
     (make_model \<lparr>rotation_noise_from_rotation = 1, rotation_noise_from_translation = 1,
        translation_noise_from_translation = 1, translation_noise_from_rotation = 1,
        strafe_noise_from_translation = 1, distance_threshold = 1 / 100\<rparr>)
     (\<lambda>n. if n < 3 then 1 else 0)) =
   fst (apply_motion \<lparr>so2 = SO2_exp 0, translation = (2, 3)\<rparr>
     (update_motion \<lparr>so2 = SO2_exp 0, translation = (5, 7)\<rparr>
       (make_model \<lparr>rotation_noise_from_rotation = 2, rotation_noise_from_translation = 2,
          translation_noise_from_translation = 2, translation_noise_from_rotation = 2,
          strafe_noise_from_translation = 2, distance_threshold = 1\<rparr>))
     (\<lambda>n. 1))"
  using apply_motion_pure [of "\<lparr>so2 = SO2_exp 0, translation = (2, 3)\<rparr>"
      "make_model \<lparr>rotation_noise_from_rotation = 1, rotation_noise_from_translation = 1,
        translation_noise_from_translation = 1, translation_noise_from_rotation = 1,
        strafe_noise_from_translation = 1, distance_threshold = 1 / 100\<rparr>"
      "\<lambda>n. if n < 3 then 1 else 0"
      "update_motion \<lparr>so2 = SO2_exp 0, translation = (5, 7)\<rparr>
       (make_model \<lparr>rotation_noise_from_rotation = 2, rotation_noise_from_translation = 2,
          translation_noise_from_translation = 2, translation_noise_from_rotation = 2,
          strafe_noise_from_translation = 2, distance_threshold = 1\<rparr>)"
      "\<lambda>n. 1"]
  unfolding update_motion_first by (simp add: make_model_def)

section \<open>The half-turn constant\<close>





section \<open>The magnitude of a rotation angle\<close>













section \<open>Rotation variance and the half turn\<close>







end
